theory Spec2Isabelle
  imports Complex_Main "HOL-Library.Word"
begin

unbundle bit_operations_syntax

section \<open>Turns (cartotype\_navigation.h, class TTurn)\<close>

text \<open>
  A value of the C++ type \<open>double\<close> is modelled by the \<open>real\<close> it denotes (NaN and
  the infinities are outside the model). Comparing doubles is comparing these reals.
  Arithmetic on doubles rounds its result: where the code adds or subtracts, the model
  applies a function \<open>fl\<close>, the rounding of a real result to a double, which the
  definitions take as a parameter. The theorems say what they assume of it.
  \<open>int32_t\<close> and \<open>uint32_t\<close> are \<open>32 word\<close> (read with \<open>sint\<close> and \<open>unat\<close>).
\<close>

datatype TTurnType =
    TurnNone
  | Ahead
  | BearRight
  | Right
  | SharpRight
  | Around
  | SharpLeft
  | Left
  | BearLeft

datatype TRoundaboutState =
    RoundaboutNone
  | Enter
  | Continue
  | Exit

record TTurn =
  iTurnType :: TTurnType
  iContinue :: bool
  iRoundaboutState :: TRoundaboutState
  iTurnAngle :: real
  iInDirection :: real
  iOutDirection :: real
  iExitNumber :: "32 word"
  iChoices :: "32 word"
  iLeftAlternatives :: "32 word"
  iRightAlternatives :: "32 word"
  iIsFork :: bool
  iTurnOff :: bool
  iJunctionName :: string
  iJunctionRef :: string

text \<open>The just-constructed state of a \<open>TTurn\<close> (the member initialisers; \<open>Clear()\<close>).\<close>

definition Clear :: TTurn where
  "Clear = \<lparr> iTurnType = TurnNone, iContinue = True, iRoundaboutState = RoundaboutNone,
      iTurnAngle = 0, iInDirection = 0, iOutDirection = 0, iExitNumber = 0, iChoices = 0,
      iLeftAlternatives = 0, iRightAlternatives = 0, iIsFork = False, iTurnOff = False,
      iJunctionName = [], iJunctionRef = [] \<rparr>"

text \<open>\<open>void SetTurn(double aTurnAngle)\<close>: angle and type from an angle in degrees.\<close>

definition SetTurn_angle :: "real \<Rightarrow> TTurn \<Rightarrow> TTurn" where
  "SetTurn_angle aTurnAngle t =
     (let t1 = t\<lparr>iTurnAngle := aTurnAngle\<rparr> in
      if iTurnAngle t1 > 120 then t1\<lparr>iTurnType := SharpRight\<rparr>
      else if iTurnAngle t1 > 45 then t1\<lparr>iTurnType := Right\<rparr>
      else if iTurnAngle t1 > 15 then t1\<lparr>iTurnType := BearRight\<rparr>
      else if iTurnAngle t1 > - 15 then t1\<lparr>iTurnType := Ahead\<rparr>
      else if iTurnAngle t1 > - 45 then t1\<lparr>iTurnType := BearLeft\<rparr>
      else if iTurnAngle t1 > - 120 then t1\<lparr>iTurnType := Left\<rparr>
      else t1\<lparr>iTurnType := SharpLeft\<rparr>)"

text \<open>
  \<open>void SetTurn(double aInDir, double aOutDir, int32_t aChoices, int32_t aLeftAlternatives,
  int32_t aRightAlternatives, bool aIsFork, bool aTurnOff)\<close>. The subtraction of the
  bearings and the step by 360 are double operations, rounded by \<open>fl\<close>.
\<close>

definition SetTurn ::
  "(real \<Rightarrow> real) \<Rightarrow> real \<Rightarrow> real \<Rightarrow> 32 word \<Rightarrow> 32 word \<Rightarrow> 32 word \<Rightarrow> bool \<Rightarrow> bool \<Rightarrow> TTurn
     \<Rightarrow> TTurn" where
  "SetTurn fl aInDir aOutDir aChoices aLeftAlternatives aRightAlternatives aIsFork aTurnOff t =
     (let turn_angle = fl (aInDir - aOutDir);
          turn_angle = (if turn_angle > 180 then fl (turn_angle - 360)
                        else if turn_angle < - 180 then fl (turn_angle + 360)
                        else turn_angle);
          t1 = SetTurn_angle turn_angle t;
          t2 = t1\<lparr> iInDirection := aInDir, iOutDirection := aOutDir, iChoices := aChoices,
                    iLeftAlternatives := aLeftAlternatives,
                    iRightAlternatives := aRightAlternatives,
                    iIsFork := aIsFork, iTurnOff := aTurnOff \<rparr>
      in if iTurnType t2 = Ahead \<and> (iTurnOff t2 \<or> (iIsFork t2 \<and> iChoices t2 = 2))
         then t2\<lparr> iTurnType := (if iLeftAlternatives t2 \<noteq> 0 then BearRight else BearLeft) \<rparr>
         else t2)"

section \<open>Vehicle types (class TVehicleType)\<close>

definition KArcOtherAccessFlag :: "32 word" where
  "KArcOtherAccessFlag = 0x80000000"

record TVehicleType =
  iAccessFlags :: "32 word"
  iWeight :: real
  iAxleLoad :: real
  iDoubleAxleLoad :: real
  iTripleAxleLoad :: real
  iHeight :: real
  iWidth :: real
  iLength :: real
  iHazMat :: bool

text \<open>\<open>void TVehicleType::Normalize()\<close>.\<close>

definition TVehicleType_Normalize :: "TVehicleType \<Rightarrow> TVehicleType" where
  "TVehicleType_Normalize v =
     (let v0 = (if iWeight v > 0 \<or> iAxleLoad v > 0 \<or> iDoubleAxleLoad v > 0 \<or>
                   iTripleAxleLoad v > 0 \<or> iHeight v > 0 \<or> iWidth v > 0 \<or>
                   iLength v > 0 \<or> iHazMat v
                then v\<lparr>iAccessFlags := iAccessFlags v OR KArcOtherAccessFlag\<rparr>
                else v\<lparr>iAccessFlags := iAccessFlags v AND NOT KArcOtherAccessFlag\<rparr>);
          v1 = (if iWeight v0 < 0 then v0\<lparr>iWeight := 0\<rparr> else v0);
          v2 = (if iAxleLoad v1 < 0 then v1\<lparr>iAxleLoad := 0\<rparr> else v1);
          v3 = (if iDoubleAxleLoad v2 < 0 then v2\<lparr>iDoubleAxleLoad := 0\<rparr> else v2);
          v4 = (if iTripleAxleLoad v3 < 0 then v3\<lparr>iTripleAxleLoad := 0\<rparr> else v3);
          v5 = (if iHeight v4 < 0 then v4\<lparr>iHeight := 0\<rparr> else v4);
          v6 = (if iWidth v5 < 0 then v5\<lparr>iWidth := 0\<rparr> else v5)
      in if iLength v6 < 0 then v6\<lparr>iLength := 0\<rparr> else v6)"

section \<open>Time and distance matrices (class CTimeAndDistanceMatrix)\<close>

text \<open>
  \<open>size_t\<close> is an unsigned integer whose width depends on the target: it is the type
  \<open>'w word\<close>, of \<open>LENGTH('w)\<close> bits (64 on the usual targets, 32 on others), and its
  arithmetic wraps. \<open>TResult\<close> holds a \<open>uint32_t\<close> code. An exception thrown by the
  constructor is the \<open>Inl\<close> branch of the result. \<open>std::vector::operator[]\<close> outside
  the vector is undefined behaviour: the accessors return \<open>None\<close> there.
\<close>

type_synonym TResult = "32 word"

definition KErrorInvalidArgument :: TResult where
  "KErrorInvalidArgument = 15"

record (overloaded) 'w CTimeAndDistanceMatrix =
  m_from_count :: "'w word"
  m_to_count :: "'w word"
  m_matrix :: "32 word list"

text \<open>\<open>m_matrix.size()\<close> as a \<open>size_t\<close>.\<close>

definition vector_size :: "'a list \<Rightarrow> 'w::len word" where
  "vector_size xs = word_of_nat (length xs)"

text \<open>\<open>m_matrix[i]\<close> for a \<open>size_t\<close> index.\<close>

definition vector_at :: "'a list \<Rightarrow> 'w::len word \<Rightarrow> 'a option" where
  "vector_at xs i = (if unat i < length xs then Some (xs ! unat i) else None)"

text \<open>\<open>CTimeAndDistanceMatrix(size_t aFromCount, size_t aToCount, std::vector<uint32_t>&& aMatrix)\<close>.\<close>

definition CTimeAndDistanceMatrix_new ::
  "'w::len word \<Rightarrow> 'w word \<Rightarrow> 32 word list \<Rightarrow> TResult + 'w CTimeAndDistanceMatrix" where
  "CTimeAndDistanceMatrix_new aFromCount aToCount aMatrix =
     (let this = \<lparr> m_from_count = aFromCount, m_to_count = aToCount, m_matrix = aMatrix \<rparr> in
      if aFromCount * aToCount * 2 \<noteq> vector_size (m_matrix this)
      then Inl KErrorInvalidArgument
      else Inr this)"

definition FromCount :: "'w::len CTimeAndDistanceMatrix \<Rightarrow> 'w word" where
  "FromCount this = m_from_count this"

definition ToCount :: "'w::len CTimeAndDistanceMatrix \<Rightarrow> 'w word" where
  "ToCount this = m_to_count this"

definition Time :: "'w::len CTimeAndDistanceMatrix \<Rightarrow> 'w word \<Rightarrow> 'w word \<Rightarrow> 32 word option" where
  "Time this aFromIndex aToIndex =
     vector_at (m_matrix this) ((aFromIndex * m_to_count this + aToIndex) * 2)"

definition Distance :: "'w::len CTimeAndDistanceMatrix \<Rightarrow> 'w word \<Rightarrow> 'w word \<Rightarrow> 32 word option" where
  "Distance this aFromIndex aToIndex =
     vector_at (m_matrix this) ((aFromIndex * m_to_count this + aToIndex) * 2 + 1)"

section \<open>Location match parameters (class TLocationMatchParam)\<close>

record TLocationMatchParam =
  iLocationAccuracyInMeters :: real
  iHeadingAccuracyInDegrees :: real
  iMaxRoadDistanceInMeters :: real

text \<open>
  Modelled from the spec: the body of \<open>TLocationMatchParam::Normalize\<close> is not among
  the sources, which only declare it (``Converts zeros to default values and clamps other
  values to legal ranges'') and document, per member, the default that zero stands for and
  the range the value is clamped to.
\<close>

definition normalize_param :: "real \<Rightarrow> real \<Rightarrow> real \<Rightarrow> real \<Rightarrow> real" where
  "normalize_param dflt lo hi x =
     (if x = 0 then dflt else if x < lo then lo else if x > hi then hi else x)"

definition TLocationMatchParam_Normalize :: "TLocationMatchParam \<Rightarrow> TLocationMatchParam" where
  "TLocationMatchParam_Normalize p =
     p\<lparr> iLocationAccuracyInMeters := normalize_param 8 1 1000 (iLocationAccuracyInMeters p),
        iHeadingAccuracyInDegrees := normalize_param 22.5 1 90 (iHeadingAccuracyInDegrees p),
        iMaxRoadDistanceInMeters := normalize_param 100 5 10000 (iMaxRoadDistanceInMeters p) \<rparr>"

text \<open>\<open>TLocationMatchParam Normalized() const\<close>.\<close>

definition Normalized :: "TLocationMatchParam \<Rightarrow> TLocationMatchParam" where
  "Normalized p = TLocationMatchParam_Normalize p"

section \<open>Routes (classes CRouteSegment and CRoute)\<close>

text \<open>
  The data members the properties below read. The path geometry is left out; road types are
  their numeric codes; section numbers are unbounded integers.
\<close>

record CRouteSegment =
  iRoadType :: nat
  iMaxSpeed :: real
  iName :: string
  iRef :: string
  iDistance :: real
  iTime :: real
  iSection :: int
  iTurn :: TTurn
  iRestricted :: bool

record CRoute =
  iRouteSegment :: "CRouteSegment list"
  iDistance :: real
  iTime :: real

text \<open>One arc of the sequence a path search returns, with the road data the assembler copies.\<close>

record RouteArc =
  arc_road_type :: nat
  arc_max_speed :: real
  arc_name :: string
  arc_ref :: string
  arc_length :: real
  arc_turn :: TTurn
  arc_at_waypoint :: bool

text \<open>\<open>CRoute()\<close>: the empty route.\<close>

definition CRoute_empty :: CRoute where
  "CRoute_empty = \<lparr> iRouteSegment = [], iDistance = 0, iTime = 0 \<rparr>"

text \<open>
  Modelled from the spec: \<open>CRoute::AppendSegment\<close> is declared in the sources and defined
  elsewhere. The segment goes to the end of the list and its distance and time are added to
  the route's totals.
\<close>

definition AppendSegment :: "CRoute \<Rightarrow> CRouteSegment \<Rightarrow> CRoute" where
  "AppendSegment route seg =
     route\<lparr> iRouteSegment := iRouteSegment route @ [seg],
            CRoute.iDistance := CRoute.iDistance route + CRouteSegment.iDistance seg,
            CRoute.iTime := CRoute.iTime route + CRouteSegment.iTime seg \<rparr>"

text \<open>
  Modelled from the spec: the route assembler (section 4.2) is not among the sources. It
  walks the arc sequence once; the section index starts at zero and goes up by one at each
  waypoint boundary after the start; each arc gives one segment whose distance is the arc's
  length and whose time and admissibility come from the cost model \<open>cost\<close>; a segment
  that is not admissible is recorded as restricted; the first segment has no turn. An empty
  sequence gives the empty route.
\<close>

definition segment_of :: "(RouteArc \<Rightarrow> bool \<times> real) \<Rightarrow> int \<Rightarrow> bool \<Rightarrow> RouteArc \<Rightarrow> CRouteSegment" where
  "segment_of cost sec first a =
     \<lparr> iRoadType = arc_road_type a, iMaxSpeed = arc_max_speed a, iName = arc_name a,
       iRef = arc_ref a, iDistance = arc_length a, iTime = snd (cost a), iSection = sec,
       iTurn = (if first then Clear else arc_turn a), iRestricted = (\<not> fst (cost a)) \<rparr>"

fun Assemble_from :: "(RouteArc \<Rightarrow> bool \<times> real) \<Rightarrow> int \<Rightarrow> RouteArc list \<Rightarrow> CRoute \<Rightarrow> CRoute" where
  "Assemble_from cost sec [] route = route"
| "Assemble_from cost sec (a # arcs) route =
     (let first = (iRouteSegment route = []);
          sec' = (if arc_at_waypoint a \<and> \<not> first then sec + 1 else sec)
      in Assemble_from cost sec' arcs
           (AppendSegment route (segment_of cost sec' first a)))"

definition Assemble :: "(RouteArc \<Rightarrow> bool \<times> real) \<Rightarrow> RouteArc list \<Rightarrow> CRoute" where
  "Assemble cost arcs = Assemble_from cost 0 arcs CRoute_empty"

section \<open>The navigator (CFramework::Navigate)\<close>

datatype TNavigationState =
    StateNone
  | NoPosition
  | Turn
  | OffRoute
  | ReRouteNeeded
  | ReRouteDone
  | TurnRound
  | Arrival

record TPointFP =
  iX :: real
  iY :: real

record TNavigationData =
  iValidity :: "32 word"
  iTime :: real
  iPosition :: TPointFP
  iSpeed :: real
  iCourse :: real
  iHeight :: real

record TNavigatorParam =
  iMinimumFixDistance :: "32 word"
  iRouteDistanceTolerance :: "32 word"
  iRouteTimeTolerance :: "32 word"
  iAutoReRoute :: bool
  iNavigationEnabled :: bool

text \<open>The member initialisers of \<open>TNavigatorParam\<close>.\<close>

definition TNavigatorParam_default :: TNavigatorParam where
  "TNavigatorParam_default =
     \<lparr> iMinimumFixDistance = 5, iRouteDistanceTolerance = 20, iRouteTimeTolerance = 30,
       iAutoReRoute = True, iNavigationEnabled = True \<rparr>"

text \<open>
  Modelled from the spec: the navigator session of section 3 and the event
  \<open>Navigate(fix)\<close> of section 4.4; \<open>CFramework::Navigate\<close> is only declared in the
  sources. What the navigator takes from its collaborators is a record of functions: the
  distance in metres between two positions, the location matcher run against the active
  route within a tolerance, the distance of a fix from the route, and the route search
  asked for a new route.
\<close>

record RouteMatch =
  match_distance_along_route :: real
  match_time_along_route :: real
  match_section :: int
  match_arrived :: bool
  match_u_turn_needed :: bool

record Collaborators =
  fix_distance :: "TPointFP \<Rightarrow> TPointFP \<Rightarrow> real"
  match_route :: "CRoute \<Rightarrow> TLocationMatchParam \<Rightarrow> real \<Rightarrow> TNavigationData \<Rightarrow> RouteMatch option"
  distance_from_route :: "CRoute \<Rightarrow> TNavigationData \<Rightarrow> real"
  create_route :: "CRoute \<Rightarrow> TNavigationData \<Rightarrow> CRoute"

record Navigator =
  nav_route :: "CRoute option"
  nav_state :: TNavigationState
  nav_last_fix :: "TNavigationData option"
  nav_distance_along_route :: real
  nav_time_along_route :: real
  nav_section :: int
  nav_off_route_time :: real
  nav_param :: TNavigatorParam
  nav_location_match_param :: TLocationMatchParam

text \<open>Step 1 of \<open>Navigate\<close>: is the fix closer than the minimum to the last accepted one?\<close>

definition fix_rejected :: "Collaborators \<Rightarrow> TNavigationData \<Rightarrow> Navigator \<Rightarrow> bool" where
  "fix_rejected env fix nav =
     (case nav_last_fix nav of
        None \<Rightarrow> False
      | Some previous \<Rightarrow>
          fix_distance env (iPosition previous) (iPosition fix)
            < real_of_int (sint (iMinimumFixDistance (nav_param nav))))"

text \<open>Steps 2 to 4: the fix is accepted and matched against the route.\<close>

definition accept_fix :: "Collaborators \<Rightarrow> TNavigationData \<Rightarrow> Navigator \<Rightarrow> Navigator" where
  "accept_fix env fix nav =
     (let nav1 = nav\<lparr> nav_last_fix := Some fix \<rparr> in
      case nav_route nav of
        None \<Rightarrow> nav1
      | Some route \<Rightarrow>
          (case match_route env route (Normalized (nav_location_match_param nav))
                  (real_of_int (sint (iRouteDistanceTolerance (nav_param nav)))) fix of
             Some m \<Rightarrow>
               nav1\<lparr> nav_distance_along_route := match_distance_along_route m,
                     nav_time_along_route := match_time_along_route m,
                     nav_section := match_section m,
                     nav_off_route_time := 0,
                     nav_state := (if match_arrived m then Arrival
                                   else if match_u_turn_needed m then TurnRound
                                   else Turn) \<rparr>
           | None \<Rightarrow>
               (let elapsed = (case nav_last_fix nav of
                                 None \<Rightarrow> 0
                               | Some previous \<Rightarrow> TNavigationData.iTime fix - TNavigationData.iTime previous);
                    off_time = nav_off_route_time nav + elapsed
                in if off_time > real_of_int (sint (iRouteTimeTolerance (nav_param nav))) \<and>
                      distance_from_route env route fix
                        > real_of_int (sint (iRouteDistanceTolerance (nav_param nav)))
                   then (if iAutoReRoute (nav_param nav)
                         then nav1\<lparr> nav_route := Some (create_route env route fix),
                                    nav_off_route_time := 0,
                                    nav_state := ReRouteDone \<rparr>
                         else nav1\<lparr> nav_off_route_time := off_time,
                                    nav_state := ReRouteNeeded \<rparr>)
                   else nav1\<lparr> nav_off_route_time := off_time \<rparr>)))"

definition Navigate :: "Collaborators \<Rightarrow> TNavigationData \<Rightarrow> Navigator \<Rightarrow> Navigator" where
  "Navigate env fix nav = (if fix_rejected env fix nav then nav else accept_fix env fix nav)"

section \<open>Properties of turn classification\<close>

lemma SetTurn_angle_type:
  "iTurnType (SetTurn_angle a t) =
     (if a > 120 then SharpRight else if a > 45 then Right else if a > 15 then BearRight
      else if a > - 15 then Ahead else if a > - 45 then BearLeft
      else if a > - 120 then Left else SharpLeft)"
  by (simp add: SetTurn_angle_def Let_def)

lemma SetTurn_angle_angle: "iTurnAngle (SetTurn_angle a t) = a"
  by (simp add: SetTurn_angle_def Let_def)

lemma SetTurn_iTurnAngle:
  "iTurnAngle (SetTurn fl i out c l r f off t) =
     (if fl (i - out) > 180 then fl (fl (i - out) - 360)
      else if fl (i - out) < - 180 then fl (fl (i - out) + 360) else fl (i - out))"
  by (simp add: SetTurn_def Let_def SetTurn_angle_angle)

lemma SetTurn_iTurnType:
  "iTurnType (SetTurn fl i out c l r f off t) =
     (let base = iTurnType (SetTurn_angle (iTurnAngle (SetTurn fl i out c l r f off t)) t) in
      if base = Ahead \<and> (off \<or> (f \<and> c = 2))
      then (if l \<noteq> 0 then BearRight else BearLeft) else base)"
  by (simp add: SetTurn_def Let_def SetTurn_angle_angle SetTurn_angle_type)

text \<open>
  C1 (amended). The type that \<open>SetTurn(double)\<close> sets follows half-open buckets, each
  closed at its right-hand end: above 120 degrees sharp right; above 45 and up to 120 right;
  above 15 and up to 45 bear right; above -15 and up to 15 ahead; above -45 and up to -15
  bear left; above -120 and up to -45 left; -120 and below sharp left. So 15, 45 and 120 fall
  in the inner bucket, -15, -45 and -120 in the outer one, negative angles give the
  left-hand types, and no angle gives around or none.
\<close>

theorem SetTurn_angle_buckets:
  "(iTurnType (SetTurn_angle a t) = Ahead \<longleftrightarrow> - 15 < a \<and> a \<le> 15) \<and>
   (iTurnType (SetTurn_angle a t) = BearRight \<longleftrightarrow> 15 < a \<and> a \<le> 45) \<and>
   (iTurnType (SetTurn_angle a t) = Right \<longleftrightarrow> 45 < a \<and> a \<le> 120) \<and>
   (iTurnType (SetTurn_angle a t) = SharpRight \<longleftrightarrow> 120 < a) \<and>
   (iTurnType (SetTurn_angle a t) = BearLeft \<longleftrightarrow> - 45 < a \<and> a \<le> - 15) \<and>
   (iTurnType (SetTurn_angle a t) = Left \<longleftrightarrow> - 120 < a \<and> a \<le> - 45) \<and>
   (iTurnType (SetTurn_angle a t) = SharpLeft \<longleftrightarrow> a \<le> - 120) \<and>
   iTurnType (SetTurn_angle a t) \<noteq> Around \<and>
   iTurnType (SetTurn_angle a t) \<noteq> TurnNone"
  unfolding SetTurn_angle_type by auto

text \<open>
  As first stated, with \<open>\<bar>\<theta>\<bar> \<le> 15\<close> giving ahead, \<open>\<bar>\<theta>\<bar> \<le> 45\<close> bear and
  \<open>\<bar>\<theta>\<bar> \<le> 120\<close> left or right, C1 fails at -15, -45 and -120 degrees.
\<close>

theorem SetTurn_angle_negative_boundary_counterexample:
  "\<bar>- 15 :: real\<bar> \<le> 15 \<and> iTurnType (SetTurn_angle (- 15) Clear) = BearLeft \<and>
   \<bar>- 45 :: real\<bar> \<le> 45 \<and> iTurnType (SetTurn_angle (- 45) Clear) = Left \<and>
   \<bar>- 120 :: real\<bar> \<le> 120 \<and> iTurnType (SetTurn_angle (- 120) Clear) = SharpLeft"
  by (simp add: SetTurn_angle_type)

text \<open>
  C2 (amended). For all bearings, \<open>SetTurn\<close> stores the double difference of the
  incoming and the outgoing bearing after one step of normalisation and no more: 360 is
  subtracted once from a difference above 180 and added once to a difference below -180,
  each as a double operation. Rounding is monotone and leaves 180 and -180 as they are; so
  when the difference lies between -540 and 540 the stored angle lies in the closed
  interval from -180 to 180, a difference of -180 is stored as -180, a difference above 540
  gives a stored angle of at least 180 and a difference below -540 one of at most -180.
\<close>

theorem SetTurn_stored_angle:
  assumes mono: "\<And>x y. x \<le> y \<Longrightarrow> fl x \<le> fl y"
    and hi: "fl 180 = 180" and lo: "fl (- 180) = - 180"
  shows "iTurnAngle (SetTurn fl i out c l r f off t) =
           (if fl (i - out) > 180 then fl (fl (i - out) - 360)
            else if fl (i - out) < - 180 then fl (fl (i - out) + 360)
            else fl (i - out)) \<and>
         (- 540 \<le> fl (i - out) \<and> fl (i - out) \<le> 540 \<longrightarrow>
            - 180 \<le> iTurnAngle (SetTurn fl i out c l r f off t) \<and>
            iTurnAngle (SetTurn fl i out c l r f off t) \<le> 180) \<and>
         (fl (i - out) = - 180 \<longrightarrow> iTurnAngle (SetTurn fl i out c l r f off t) = - 180) \<and>
         (540 < fl (i - out) \<longrightarrow> 180 \<le> iTurnAngle (SetTurn fl i out c l r f off t)) \<and>
         (fl (i - out) < - 540 \<longrightarrow> iTurnAngle (SetTurn fl i out c l r f off t) \<le> - 180)"
proof -
  define d where "d = fl (i - out)"
  have above: "- 180 \<le> fl (d - 360) \<and> fl (d - 360) \<le> 180" if "180 < d" "d \<le> 540"
  proof -
    have "fl (- 180) \<le> fl (d - 360)" using that by (intro mono) simp
    moreover have "fl (d - 360) \<le> fl 180" using that by (intro mono) simp
    ultimately show ?thesis by (simp add: hi lo)
  qed
  have below: "- 180 \<le> fl (d + 360) \<and> fl (d + 360) \<le> 180" if "d < - 180" "- 540 \<le> d"
  proof -
    have "fl (- 180) \<le> fl (d + 360)" using that by (intro mono) simp
    moreover have "fl (d + 360) \<le> fl 180" using that by (intro mono) simp
    ultimately show ?thesis by (simp add: hi lo)
  qed
  have far_above: "180 \<le> fl (d - 360)" if "540 < d"
  proof -
    have "fl 180 \<le> fl (d - 360)" using that by (intro mono) simp
    then show ?thesis by (simp add: hi)
  qed
  have far_below: "fl (d + 360) \<le> - 180" if "d < - 540"
  proof -
    have "fl (d + 360) \<le> fl (- 180)" using that by (intro mono) simp
    then show ?thesis by (simp add: lo)
  qed
  show ?thesis
    unfolding SetTurn_iTurnAngle d_def [symmetric]
    using above below far_above far_below by auto
qed

theorem SetTurn_stored_angle_witness:
  "- 540 \<le> (350 :: real) - 10 \<and> (350 :: real) - 10 \<le> 540 \<and>
   iTurnAngle (SetTurn (\<lambda>x. x) 350 10 3 1 1 False False Clear) = - 20 \<and>
   (0 :: real) - 180 = - 180 \<and>
   iTurnAngle (SetTurn (\<lambda>x. x) 0 180 3 1 1 False False Clear) = - 180 \<and>
   540 < (1000 :: real) - 10 \<and>
   180 \<le> iTurnAngle (SetTurn (\<lambda>x. x) 1000 10 3 1 1 False False Clear) \<and>
   (10 :: real) - 1000 < - 540 \<and>
   iTurnAngle (SetTurn (\<lambda>x. x) 10 1000 3 1 1 False False Clear) \<le> - 180"
  using SetTurn_stored_angle [of "\<lambda>x. x" 350 10 3 1 1 False False Clear]
    SetTurn_stored_angle [of "\<lambda>x. x" 0 180 3 1 1 False False Clear]
    SetTurn_stored_angle [of "\<lambda>x. x" 1000 10 3 1 1 False False Clear]
    SetTurn_stored_angle [of "\<lambda>x. x" 10 1000 3 1 1 False False Clear]
  by simp

text \<open>
  As first stated, with the stored angle always in the half-open interval above -180 and
  up to 180, C2 fails for the bearings 0 and 180, which store -180, and for 720 and 0,
  which store 360. Each subtraction here is exact in double arithmetic.
\<close>

theorem SetTurn_stored_angle_counterexample:
  "iTurnAngle (SetTurn (\<lambda>x. x) 0 180 0 0 0 False False Clear) = - 180 \<and>
   \<not> (- 180 < iTurnAngle (SetTurn (\<lambda>x. x) 0 180 0 0 0 False False Clear)) \<and>
   iTurnAngle (SetTurn (\<lambda>x. x) 720 0 0 0 0 False False Clear) = 360 \<and>
   \<not> (iTurnAngle (SetTurn (\<lambda>x. x) 720 0 0 0 0 False False Clear) \<le> 180)"
  by (simp add: SetTurn_iTurnAngle)

text \<open>
  C3 (amended). When the type given by the stored angle is ahead and the turn-off flag is
  set, or the fork flag is set with exactly two choices, \<open>SetTurn\<close> makes the turn bear
  right if the number of left alternatives is not zero and bear left if it is zero; the
  number of right alternatives is not read. Where the two counts are non-negative and add up
  to one (a fork with two choices), this is bear right exactly when more alternatives lie to
  the left and bear left exactly when more lie to the right. This holds whatever the
  rounding of the double operations.
\<close>

theorem SetTurn_override:
  assumes "iTurnType (SetTurn_angle (iTurnAngle (SetTurn fl i out c l r f off t)) t) = Ahead"
    and "off \<or> (f \<and> c = 2)"
  shows "iTurnType (SetTurn fl i out c l r f off t) = (if l \<noteq> 0 then BearRight else BearLeft) \<and>
         (0 \<le> sint l \<and> 0 \<le> sint r \<and> sint l + sint r = 1 \<longrightarrow>
            (iTurnType (SetTurn fl i out c l r f off t) = BearRight \<longleftrightarrow> sint r < sint l) \<and>
            (iTurnType (SetTurn fl i out c l r f off t) = BearLeft \<longleftrightarrow> sint l < sint r))"
proof -
  have ty: "iTurnType (SetTurn fl i out c l r f off t) = (if l \<noteq> 0 then BearRight else BearLeft)"
    using assms by (subst SetTurn_iTurnType) (simp add: Let_def)
  have z: "l = 0 \<longleftrightarrow> sint l = 0"
    by (metis signed_eq_0_iff)
  show ?thesis unfolding ty using z by auto
qed

theorem SetTurn_override_witness:
  "iTurnType (SetTurn_angle (iTurnAngle (SetTurn (\<lambda>x. x) 0 0 2 1 0 True False Clear)) Clear) = Ahead \<and>
   (False \<or> (True \<and> (2::32 word) = 2)) \<and>
   0 \<le> sint (1::32 word) \<and> 0 \<le> sint (0::32 word) \<and>
   sint (1::32 word) + sint (0::32 word) = 1 \<and>
   sint (0::32 word) < sint (1::32 word) \<and>
   iTurnType (SetTurn (\<lambda>x. x) 0 0 2 1 0 True False Clear) = BearRight"
  using SetTurn_override [of "\<lambda>x. x" 0 0 2 1 0 True False Clear]
  by (simp add: SetTurn_iTurnAngle SetTurn_angle_type)

theorem SetTurn_override_counterexample:
  "iTurnType (SetTurn_angle (iTurnAngle (SetTurn (\<lambda>x. x) 0 0 4 1 2 False True Clear)) Clear) = Ahead \<and>
   sint (1::32 word) < sint (2::32 word) \<and>
   iTurnType (SetTurn (\<lambda>x. x) 0 0 4 1 2 False True Clear) = BearRight"
  by (simp add: SetTurn_iTurnType SetTurn_iTurnAngle SetTurn_angle_type Let_def)

text \<open>
  C4 (amended). Neither form of \<open>SetTurn\<close> ever gives the type around: angles close to
  180 degrees are sharp turns like every other angle beyond 120 degrees. The type that
  \<open>SetTurn(double)\<close> sets depends on the angle alone, and the seven-argument form gives
  the type of its stored angle unless that type is ahead and the fork or turn-off override
  applies. This holds whatever the rounding of the double operations.
\<close>

theorem SetTurn_never_around:
  "iTurnType (SetTurn_angle a t) \<noteq> Around \<and>
   iTurnType (SetTurn fl i out c l r f off t) \<noteq> Around \<and>
   iTurnType (SetTurn_angle a t) = iTurnType (SetTurn_angle a t') \<and>
   (\<not> (iTurnType (SetTurn_angle (iTurnAngle (SetTurn fl i out c l r f off t)) t) = Ahead \<and>
        (off \<or> (f \<and> c = 2))) \<longrightarrow>
      iTurnType (SetTurn fl i out c l r f off t) =
      iTurnType (SetTurn_angle (iTurnAngle (SetTurn fl i out c l r f off t)) t'))"
  by (subst (1 2) SetTurn_iTurnType) (simp add: SetTurn_angle_type Let_def)

theorem SetTurn_never_around_witness:
  "\<not> (iTurnType (SetTurn_angle (iTurnAngle (SetTurn (\<lambda>x. x) 100 10 2 1 0 True True Clear)) Clear) = Ahead \<and>
        (True \<or> (True \<and> (2::32 word) = 2))) \<and>
   iTurnType (SetTurn (\<lambda>x. x) 100 10 2 1 0 True True Clear) = Right"
  using SetTurn_never_around [of 0 Clear "\<lambda>x. x" 100 10 2 1 0 True True Clear]
  by (simp add: SetTurn_iTurnAngle SetTurn_angle_type)

theorem SetTurn_around_counterexample:
  "\<bar>180 - (175::real)\<bar> \<le> 11.75 \<and> iTurnType (SetTurn_angle 175 Clear) = SharpRight \<and>
   iTurnType (SetTurn (\<lambda>x. x) 180 0 1 0 0 False False Clear) = SharpRight"
  by (simp add: SetTurn_iTurnType SetTurn_iTurnAngle SetTurn_angle_type Let_def)

section \<open>Vehicle type normalisation\<close>

lemma other_flag_or: "(x OR KArcOtherAccessFlag) AND KArcOtherAccessFlag = KArcOtherAccessFlag"
  by (simp add: bit_eq_iff bit_simps)

lemma other_flag_and_not:
  "(x AND NOT KArcOtherAccessFlag) AND KArcOtherAccessFlag \<noteq> KArcOtherAccessFlag"
proof -
  have "(x AND NOT KArcOtherAccessFlag) AND KArcOtherAccessFlag = 0"
    by (simp add: bit_eq_iff bit_simps)
  then show ?thesis by (simp add: KArcOtherAccessFlag_def)
qed

lemma other_flag_rest_or:
  "(x OR KArcOtherAccessFlag) AND NOT KArcOtherAccessFlag = x AND NOT KArcOtherAccessFlag"
  by (auto simp add: bit_eq_iff bit_simps)

lemma other_flag_rest_and:
  "(x AND NOT KArcOtherAccessFlag) AND NOT KArcOtherAccessFlag = x AND NOT KArcOtherAccessFlag"
  by (auto simp add: bit_eq_iff bit_simps)

lemma clamp_fields:
  "(if iWeight r < 0 then r\<lparr>iWeight := 0\<rparr> else r) = r\<lparr>iWeight := max 0 (iWeight r)\<rparr>"
  "(if iAxleLoad r < 0 then r\<lparr>iAxleLoad := 0\<rparr> else r) = r\<lparr>iAxleLoad := max 0 (iAxleLoad r)\<rparr>"
  "(if iDoubleAxleLoad r < 0 then r\<lparr>iDoubleAxleLoad := 0\<rparr> else r)
     = r\<lparr>iDoubleAxleLoad := max 0 (iDoubleAxleLoad r)\<rparr>"
  "(if iTripleAxleLoad r < 0 then r\<lparr>iTripleAxleLoad := 0\<rparr> else r)
     = r\<lparr>iTripleAxleLoad := max 0 (iTripleAxleLoad r)\<rparr>"
  "(if TVehicleType.iHeight r < 0 then r\<lparr>TVehicleType.iHeight := 0\<rparr> else r)
     = r\<lparr>TVehicleType.iHeight := max 0 (TVehicleType.iHeight r)\<rparr>"
  "(if iWidth r < 0 then r\<lparr>iWidth := 0\<rparr> else r) = r\<lparr>iWidth := max 0 (iWidth r)\<rparr>"
  "(if iLength r < 0 then r\<lparr>iLength := 0\<rparr> else r) = r\<lparr>iLength := max 0 (iLength r)\<rparr>"
  for r :: TVehicleType
  by (simp_all add: max_def)

lemma set_flag:
  "(if c then v\<lparr>iAccessFlags := a\<rparr> else v\<lparr>iAccessFlags := b\<rparr>)
     = v\<lparr>iAccessFlags := (if c then a else b)\<rparr>"
  for v :: TVehicleType
  by simp

lemma TVehicleType_Normalize_eq:
  "TVehicleType_Normalize v =
     v\<lparr> iAccessFlags :=
          (if iWeight v > 0 \<or> iAxleLoad v > 0 \<or> iDoubleAxleLoad v > 0 \<or>
              iTripleAxleLoad v > 0 \<or> TVehicleType.iHeight v > 0 \<or> iWidth v > 0 \<or>
              iLength v > 0 \<or> iHazMat v
           then iAccessFlags v OR KArcOtherAccessFlag
           else iAccessFlags v AND NOT KArcOtherAccessFlag),
        iWeight := max 0 (iWeight v),
        iAxleLoad := max 0 (iAxleLoad v),
        iDoubleAxleLoad := max 0 (iDoubleAxleLoad v),
        iTripleAxleLoad := max 0 (iTripleAxleLoad v),
        TVehicleType.iHeight := max 0 (TVehicleType.iHeight v),
        iWidth := max 0 (iWidth v),
        iLength := max 0 (iLength v) \<rparr>"
  unfolding TVehicleType_Normalize_def clamp_fields set_flag
  by (simp add: Let_def)

text \<open>
  C9. After \<open>TVehicleType::Normalize\<close> the bit \<open>KArcOtherAccessFlag\<close> of the access
  flags is set exactly when, on entry, one of weight, axle load, double axle load, triple
  axle load, height, width and length was positive or the hazardous-materials flag was true;
  each of the seven numbers is non-negative on exit; and the other bits of the access flags
  are as they were.
\<close>

theorem TVehicleType_Normalize_correct:
  "(iAccessFlags (TVehicleType_Normalize v) AND KArcOtherAccessFlag = KArcOtherAccessFlag
      \<longleftrightarrow> 0 < iWeight v \<or> 0 < iAxleLoad v \<or> 0 < iDoubleAxleLoad v \<or> 0 < iTripleAxleLoad v \<or>
          0 < TVehicleType.iHeight v \<or> 0 < iWidth v \<or> 0 < iLength v \<or> iHazMat v) \<and>
   0 \<le> iWeight (TVehicleType_Normalize v) \<and>
   0 \<le> iAxleLoad (TVehicleType_Normalize v) \<and>
   0 \<le> iDoubleAxleLoad (TVehicleType_Normalize v) \<and>
   0 \<le> iTripleAxleLoad (TVehicleType_Normalize v) \<and>
   0 \<le> TVehicleType.iHeight (TVehicleType_Normalize v) \<and>
   0 \<le> iWidth (TVehicleType_Normalize v) \<and>
   0 \<le> iLength (TVehicleType_Normalize v) \<and>
   iAccessFlags (TVehicleType_Normalize v) AND NOT KArcOtherAccessFlag =
     iAccessFlags v AND NOT KArcOtherAccessFlag"
  unfolding TVehicleType_Normalize_eq
  by (simp add: other_flag_or other_flag_and_not other_flag_rest_or other_flag_rest_and)

section \<open>Time and distance matrix\<close>

lemma vector_size_unat:
  "length xs < 2 ^ LENGTH('w) \<Longrightarrow> unat (vector_size xs :: 'w::len word) = length xs"
  by (simp add: vector_size_def unat_of_nat)

lemma matrix_index_bound:
  fixes i j n m :: nat
  assumes "i < n" "j < m"
  shows "(i * m + j) * 2 + 1 < n * m * 2"
proof -
  have "i * m + j < i * m + m" using assms by simp
  also have "\<dots> = Suc i * m" by simp
  also have "\<dots> \<le> n * m" using assms by (intro mult_le_mono1) simp
  finally show ?thesis by simp
qed

text \<open>
  What the constructor's test computes: the product modulo \<open>2 ^ LENGTH('w)\<close>.
\<close>

lemma CTimeAndDistanceMatrix_new_throws:
  fixes aFromCount aToCount :: "'w::len word"
  assumes len: "length aMatrix < 2 ^ LENGTH('w)"
  shows "CTimeAndDistanceMatrix_new aFromCount aToCount aMatrix = Inl KErrorInvalidArgument
           \<longleftrightarrow> (unat aFromCount * unat aToCount * 2) mod 2 ^ LENGTH('w) \<noteq> length aMatrix"
    and "CTimeAndDistanceMatrix_new aFromCount aToCount aMatrix =
           Inr \<lparr> m_from_count = aFromCount, m_to_count = aToCount, m_matrix = aMatrix \<rparr>
           \<longleftrightarrow> (unat aFromCount * unat aToCount * 2) mod 2 ^ LENGTH('w) = length aMatrix"
proof -
  have prod: "unat (aFromCount * aToCount * 2)
                = (unat aFromCount * unat aToCount * 2) mod 2 ^ LENGTH('w)"
    by (simp add: unat_word_ariths mod_mult_left_eq mod_mult_right_eq)
  have neq: "aFromCount * aToCount * 2 \<noteq> (vector_size aMatrix :: 'w word)
               \<longleftrightarrow> (unat aFromCount * unat aToCount * 2) mod 2 ^ LENGTH('w) \<noteq> length aMatrix"
    using prod vector_size_unat [OF len] by (simp add: word_unat_eq_iff)
  show "CTimeAndDistanceMatrix_new aFromCount aToCount aMatrix = Inl KErrorInvalidArgument
           \<longleftrightarrow> (unat aFromCount * unat aToCount * 2) mod 2 ^ LENGTH('w) \<noteq> length aMatrix"
    using neq by (simp add: CTimeAndDistanceMatrix_new_def Let_def)
  show "CTimeAndDistanceMatrix_new aFromCount aToCount aMatrix =
           Inr \<lparr> m_from_count = aFromCount, m_to_count = aToCount, m_matrix = aMatrix \<rparr>
           \<longleftrightarrow> (unat aFromCount * unat aToCount * 2) mod 2 ^ LENGTH('w) = length aMatrix"
    using neq by (simp add: CTimeAndDistanceMatrix_new_def Let_def)
qed

text \<open>
  Where the product of the counts does not overflow \<open>size_t\<close>, the constructor and the
  accessors do what their comments say: the constructor throws exactly when the product
  differs from the vector's size, and on success every pair of indices below the counts
  reads the two elements of its cell.
\<close>

lemma CTimeAndDistanceMatrix_no_overflow:
  fixes aFromCount aToCount :: "'w::len word"
  assumes len: "length aMatrix < 2 ^ LENGTH('w)"
    and small: "unat aFromCount * unat aToCount * 2 < 2 ^ LENGTH('w)"
  shows "CTimeAndDistanceMatrix_new aFromCount aToCount aMatrix = Inl KErrorInvalidArgument
           \<longleftrightarrow> unat aFromCount * unat aToCount * 2 \<noteq> length aMatrix"
    and "CTimeAndDistanceMatrix_new aFromCount aToCount aMatrix = Inr this \<Longrightarrow>
           FromCount this = aFromCount \<and> ToCount this = aToCount"
    and "CTimeAndDistanceMatrix_new aFromCount aToCount aMatrix = Inr this \<Longrightarrow>
           f < aFromCount \<Longrightarrow> t < aToCount \<Longrightarrow>
           Time this f t = Some (aMatrix ! ((unat f * unat aToCount + unat t) * 2)) \<and>
           Distance this f t = Some (aMatrix ! ((unat f * unat aToCount + unat t) * 2 + 1))"
proof -
  show "CTimeAndDistanceMatrix_new aFromCount aToCount aMatrix = Inl KErrorInvalidArgument
           \<longleftrightarrow> unat aFromCount * unat aToCount * 2 \<noteq> length aMatrix"
    using CTimeAndDistanceMatrix_new_throws(1) [OF len, of aFromCount aToCount] small by simp
next
  assume new: "CTimeAndDistanceMatrix_new aFromCount aToCount aMatrix = Inr this"
  then have this_eq:
    "this = \<lparr> m_from_count = aFromCount, m_to_count = aToCount, m_matrix = aMatrix \<rparr>"
    by (auto simp add: CTimeAndDistanceMatrix_new_def Let_def split: if_splits)
  show "FromCount this = aFromCount \<and> ToCount this = aToCount"
    by (simp add: this_eq FromCount_def ToCount_def)
next
  assume new: "CTimeAndDistanceMatrix_new aFromCount aToCount aMatrix = Inr this"
    and f: "f < aFromCount" and t: "t < aToCount"
  from new have this_eq:
    "this = \<lparr> m_from_count = aFromCount, m_to_count = aToCount, m_matrix = aMatrix \<rparr>"
    by (auto simp add: CTimeAndDistanceMatrix_new_def Let_def split: if_splits)
  have "(unat aFromCount * unat aToCount * 2) mod 2 ^ LENGTH('w) = length aMatrix"
    using new CTimeAndDistanceMatrix_new_throws(2) [OF len, of aFromCount aToCount]
    by (simp add: this_eq)
  then have lenm: "length aMatrix = unat aFromCount * unat aToCount * 2"
    using small by simp
  have b: "(unat f * unat aToCount + unat t) * 2 + 1 < unat aFromCount * unat aToCount * 2"
    using f t by (intro matrix_index_bound) (simp_all add: word_less_nat_alt)
  then have bw: "(unat f * unat aToCount + unat t) * 2 + 1 < 2 ^ LENGTH('w)"
    using small by linarith
  have w1: "(f * aToCount + t) * 2 + 1
              = (word_of_nat ((unat f * unat aToCount + unat t) * 2 + 1) :: 'w word)"
    by simp
  have w0: "(f * aToCount + t) * 2
              = (word_of_nat ((unat f * unat aToCount + unat t) * 2) :: 'w word)"
    by simp
  have u1: "unat ((f * aToCount + t) * 2 + 1) = (unat f * unat aToCount + unat t) * 2 + 1"
    unfolding w1 unat_of_nat using bw by (intro mod_less)
  have u0: "unat ((f * aToCount + t) * 2) = (unat f * unat aToCount + unat t) * 2"
    unfolding w0 unat_of_nat using bw by (intro mod_less) linarith
  show "Time this f t = Some (aMatrix ! ((unat f * unat aToCount + unat t) * 2)) \<and>
        Distance this f t = Some (aMatrix ! ((unat f * unat aToCount + unat t) * 2 + 1))"
    using b lenm u0 u1 by (simp add: Time_def Distance_def vector_at_def this_eq)
qed

text \<open>
  C10. The constructor is to throw \<open>KErrorInvalidArgument\<close> exactly when from-count times
  to-count times two differs from the vector's size, and after it succeeds \<open>Time\<close> and
  \<open>Distance\<close> are to return the vector's elements for all valid indices. The code does
  not do so when the product overflows \<open>size_t\<close>. With a 64-bit \<open>size_t\<close>, a from-count
  of \<open>2 ^ 63\<close>, a to-count of one and an empty vector, the product \<open>2 ^ 64\<close> differs
  from the size zero, yet the test computes zero and the constructor succeeds; the indices
  zero and zero are below the counts, and the element \<open>Time\<close> reads lies outside the
  vector. The same happens with a 32-bit \<open>size_t\<close> and a from-count of \<open>2 ^ 31\<close>.
\<close>

theorem CTimeAndDistanceMatrix_new_overflow:
  "unat (0x8000000000000000 :: 64 word) * unat (1 :: 64 word) * 2
     \<noteq> length ([] :: 32 word list) \<and>
   CTimeAndDistanceMatrix_new (0x8000000000000000 :: 64 word) 1 [] =
     Inr \<lparr> m_from_count = 0x8000000000000000, m_to_count = 1, m_matrix = [] \<rparr> \<and>
   (0 :: 64 word) < 0x8000000000000000 \<and> (0 :: 64 word) < 1 \<and>
   Time \<lparr> m_from_count = 0x8000000000000000 :: 64 word, m_to_count = 1, m_matrix = [] \<rparr> 0 0
     = None \<and>
   Distance \<lparr> m_from_count = 0x8000000000000000 :: 64 word, m_to_count = 1, m_matrix = [] \<rparr> 0 0
     = None \<and>
   unat (0x80000000 :: 32 word) * unat (1 :: 32 word) * 2 \<noteq> length ([] :: 32 word list) \<and>
   CTimeAndDistanceMatrix_new (0x80000000 :: 32 word) 1 [] =
     Inr \<lparr> m_from_count = 0x80000000, m_to_count = 1, m_matrix = [] \<rparr> \<and>
   (0 :: 32 word) < 0x80000000 \<and> (0 :: 32 word) < 1 \<and>
   Time \<lparr> m_from_count = 0x80000000 :: 32 word, m_to_count = 1, m_matrix = [] \<rparr> 0 0 = None"
  by (simp add: CTimeAndDistanceMatrix_new_def vector_size_def Time_def Distance_def
      vector_at_def)

section \<open>Location match parameters\<close>

lemma normalize_param_eq:
  "lo \<le> hi \<Longrightarrow> normalize_param dflt lo hi x = (if x = 0 then dflt else max lo (min hi x))"
  by (simp add: normalize_param_def max_def min_def)

text \<open>
  C8. \<open>TLocationMatchParam::Normalize\<close> turns a zero into the default (location accuracy
  8, heading accuracy 22.5, maximum road distance 100) and clamps any other value to the
  legal range (1 to 1000, 1 to 90, 5 to 10000), so that afterwards each parameter lies in
  its range.
\<close>

theorem TLocationMatchParam_Normalize_correct:
  "iLocationAccuracyInMeters (TLocationMatchParam_Normalize p) =
     (if iLocationAccuracyInMeters p = 0 then 8
      else max 1 (min 1000 (iLocationAccuracyInMeters p))) \<and>
   iHeadingAccuracyInDegrees (TLocationMatchParam_Normalize p) =
     (if iHeadingAccuracyInDegrees p = 0 then 22.5
      else max 1 (min 90 (iHeadingAccuracyInDegrees p))) \<and>
   iMaxRoadDistanceInMeters (TLocationMatchParam_Normalize p) =
     (if iMaxRoadDistanceInMeters p = 0 then 100
      else max 5 (min 10000 (iMaxRoadDistanceInMeters p))) \<and>
   1 \<le> iLocationAccuracyInMeters (TLocationMatchParam_Normalize p) \<and>
   iLocationAccuracyInMeters (TLocationMatchParam_Normalize p) \<le> 1000 \<and>
   1 \<le> iHeadingAccuracyInDegrees (TLocationMatchParam_Normalize p) \<and>
   iHeadingAccuracyInDegrees (TLocationMatchParam_Normalize p) \<le> 90 \<and>
   5 \<le> iMaxRoadDistanceInMeters (TLocationMatchParam_Normalize p) \<and>
   iMaxRoadDistanceInMeters (TLocationMatchParam_Normalize p) \<le> 10000"
  by (simp add: TLocationMatchParam_Normalize_def normalize_param_eq)

section \<open>Route assembly\<close>

lemma Assemble_from_sections:
  assumes "sorted (map iSection (iRouteSegment route))"
    and "\<forall>s \<in> set (iRouteSegment route). iSection s \<le> sec"
  shows "sorted (map iSection (iRouteSegment (Assemble_from cost sec arcs route)))"
  using assms
proof (induction arcs arbitrary: sec route)
  case Nil
  then show ?case by simp
next
  case (Cons a arcs)
  define sec' where
    "sec' = (if arc_at_waypoint a \<and> iRouteSegment route \<noteq> [] then sec + 1 else sec)"
  define route' where
    "route' = AppendSegment route (segment_of cost sec' (iRouteSegment route = []) a)"
  have le: "sec \<le> sec'" by (simp add: sec'_def)
  have segs: "map iSection (iRouteSegment route') = map iSection (iRouteSegment route) @ [sec']"
    by (simp add: route'_def AppendSegment_def segment_of_def)
  have bound: "\<forall>s \<in> set (iRouteSegment route'). iSection s \<le> sec'"
    using Cons.prems(2) le by (auto simp add: route'_def AppendSegment_def segment_of_def)
  have srt: "sorted (map iSection (iRouteSegment route'))"
    unfolding segs using Cons.prems le by (fastforce simp add: sorted_append)
  have "Assemble_from cost sec (a # arcs) route = Assemble_from cost sec' arcs route'"
    by (simp add: Let_def sec'_def route'_def)
  then show ?case using Cons.IH [OF srt bound] by simp
qed

lemma Assemble_from_distance:
  assumes "CRoute.iDistance route = sum_list (map CRouteSegment.iDistance (iRouteSegment route))"
  shows "CRoute.iDistance (Assemble_from cost sec arcs route) =
         sum_list (map CRouteSegment.iDistance (iRouteSegment (Assemble_from cost sec arcs route)))"
  using assms
  by (induction arcs arbitrary: sec route) (simp_all add: Let_def AppendSegment_def)

lemma Assemble_from_time:
  assumes "CRoute.iTime route = sum_list (map CRouteSegment.iTime (iRouteSegment route))"
  shows "CRoute.iTime (Assemble_from cost sec arcs route) =
         sum_list (map CRouteSegment.iTime (iRouteSegment (Assemble_from cost sec arcs route)))"
  using assms
  by (induction arcs arbitrary: sec route) (simp_all add: Let_def AppendSegment_def)

text \<open>
  C5. In every assembled route the section indices of the segments, in list order, never
  decrease, the route's distance is the sum of the segments' distances and the route's time
  is the sum of the segments' times.
\<close>

theorem Assemble_invariants:
  "sorted (map iSection (iRouteSegment (Assemble cost arcs))) \<and>
   CRoute.iDistance (Assemble cost arcs) =
     sum_list (map CRouteSegment.iDistance (iRouteSegment (Assemble cost arcs))) \<and>
   CRoute.iTime (Assemble cost arcs) =
     sum_list (map CRouteSegment.iTime (iRouteSegment (Assemble cost arcs)))"
  unfolding Assemble_def
  by (intro conjI Assemble_from_sections Assemble_from_distance Assemble_from_time)
     (simp_all add: CRoute_empty_def)

section \<open>Navigation\<close>

text \<open>
  C6. If \<open>Navigate\<close> rejects a fix because it is closer than the minimum fix distance to
  the last accepted fix, the navigator is unchanged, and a second call with the same fix
  leaves it unchanged again: in particular the navigation state and the distance along the
  route are what they were.
\<close>

theorem Navigate_rejected_idempotent:
  assumes "fix_rejected env fix nav"
  shows "Navigate env fix nav = nav \<and>
         Navigate env fix (Navigate env fix nav) = nav \<and>
         nav_state (Navigate env fix (Navigate env fix nav)) = nav_state nav \<and>
         nav_distance_along_route (Navigate env fix (Navigate env fix nav)) =
           nav_distance_along_route nav"
  using assms by (simp add: Navigate_def)

theorem Navigate_rejected_idempotent_witness:
  "let env = \<lparr> fix_distance = (\<lambda>p q. \<bar>iX p - iX q\<bar> + \<bar>iY p - iY q\<bar>),
                match_route = (\<lambda>route param tolerance fix. None),
                distance_from_route = (\<lambda>route fix. 0),
                create_route = (\<lambda>route fix. route) \<rparr>;
       fix = \<lparr> iValidity = 2, iTime = 100, iPosition = \<lparr> iX = 3, iY = 1 \<rparr>,
               iSpeed = 0, iCourse = 0, iHeight = 0 \<rparr>;
       nav = \<lparr> nav_route = Some CRoute_empty, nav_state = Turn,
               nav_last_fix = Some \<lparr> iValidity = 2, iTime = 99, iPosition = \<lparr> iX = 1, iY = 1 \<rparr>,
                                       iSpeed = 0, iCourse = 0, iHeight = 0 \<rparr>,
               nav_distance_along_route = 40, nav_time_along_route = 6, nav_section = 0,
               nav_off_route_time = 0, nav_param = TNavigatorParam_default,
               nav_location_match_param = \<lparr> iLocationAccuracyInMeters = 0,
                 iHeadingAccuracyInDegrees = 0, iMaxRoadDistanceInMeters = 0 \<rparr> \<rparr>
   in fix_rejected env fix nav \<and>
      Navigate env fix (Navigate env fix nav) = nav \<and>
      nav_state (Navigate env fix (Navigate env fix nav)) = Turn \<and>
      nav_distance_along_route (Navigate env fix (Navigate env fix nav)) = 40"
  (is "Let ?env (\<lambda>e. Let ?fix (\<lambda>f. Let ?nav (?P e f)))")
proof -
  have r: "fix_rejected ?env ?fix ?nav"
    by (simp add: fix_rejected_def TNavigatorParam_default_def)
  from Navigate_rejected_idempotent [OF r] r show ?thesis
    by (simp add: Let_def)
qed

end
